theory Spec2Isabelle
  imports Complex_Main "HOL-Library.Multiset"
begin

section \<open>Temporal primitives: \<open>Interval\<close> and \<open>Point\<close>\<close>

text \<open>
  Python floats are modelled as \<^typ>\<open>real\<close>: comparisons and the subtraction used for
  shifting are exact, NaN and rounding are outside the model.

  An exception is a value of \<open>error\<close>. A method that mutates \<open>self\<close> returns the pair of
  the exception raised (if any) and the state of \<open>self\<close> when the method is left, so that a
  partial update before a raise stays visible.
\<close>

datatype error = ValueError | IndexError | TypeError | AttributeError

text \<open>
  \<open>class Point(Interval)\<close>: a value of either class carries \<open>_start_time\<close>, \<open>_end_time\<close> and
  \<open>_text\<close> (the field \<open>text_str\<close>); the field \<open>cls\<close> records the class of the object, which decides the methods
  that run.
\<close>

datatype cls = IntervalC | PointC

record ranged =
  cls :: cls
  start_time :: real
  end_time :: real
  text_str :: string

text \<open>\<open>Interval.__init__\<close>; \<open>Point.__init__(time, text)\<close> calls it with \<open>(time, time, text)\<close>.\<close>

definition ranged_init :: "cls \<Rightarrow> real \<Rightarrow> real \<Rightarrow> string \<Rightarrow> error + ranged" where
  "ranged_init c s e t =
     (if s < 0 then Inl ValueError
      else if e < 0 then Inl ValueError
      else if s > e then Inr \<lparr>cls = c, start_time = e, end_time = s, text_str = t\<rparr>
      else Inr \<lparr>cls = c, start_time = s, end_time = e, text_str = t\<rparr>)"

definition Interval_init :: "real \<Rightarrow> real \<Rightarrow> string \<Rightarrow> error + ranged" where
  "Interval_init s e t = ranged_init IntervalC s e t"

definition Point_init :: "real \<Rightarrow> string \<Rightarrow> error + ranged" where
  "Point_init tm t = ranged_init PointC tm tm t"

text \<open>The property \<open>Point.time\<close> reads \<open>start_time\<close>.\<close>

definition time :: "ranged \<Rightarrow> real" where
  "time p = start_time p"

text \<open>The setters \<open>Interval.start_time\<close> and \<open>Interval.end_time\<close> (inherited by \<open>Point\<close>).\<close>

definition set_start_time :: "ranged \<Rightarrow> real \<Rightarrow> error option \<times> ranged" where
  "set_start_time self other =
     (if other < 0 then (Some ValueError, self)
      else if other > end_time self then (Some ValueError, self)
      else (None, self\<lparr>start_time := other\<rparr>))"

definition set_end_time :: "ranged \<Rightarrow> real \<Rightarrow> error option \<times> ranged" where
  "set_end_time self other =
     (if other < 0 then (Some ValueError, self)
      else if other < start_time self then (Some ValueError, self)
      else (None, self\<lparr>end_time := other\<rparr>))"

text \<open>
  The setter \<open>Point.time\<close>: both fields are assigned directly, with no check. An
  \<open>Interval\<close> has no property \<open>time\<close>; the assignment there only creates a fresh attribute
  and leaves the bounds alone.
\<close>

definition set_time :: "ranged \<Rightarrow> real \<Rightarrow> error option \<times> ranged" where
  "set_time self other =
     (case cls self of
        PointC \<Rightarrow> (None, self\<lparr>start_time := other, end_time := other\<rparr>)
      | IntervalC \<Rightarrow> (None, self))"

subsection \<open>Comparison methods\<close>

text \<open>
  Each method below is the branch for an operand that has \<open>start_time\<close> and \<open>end_time\<close>
  (an \<open>Interval\<close> or a \<open>Point\<close>); the branch for a bare number is not needed here.
\<close>

definition Interval_lt :: "ranged \<Rightarrow> ranged \<Rightarrow> bool" where
  "Interval_lt self other = (end_time self \<le> start_time other)"

definition Interval_gt :: "ranged \<Rightarrow> ranged \<Rightarrow> bool" where
  "Interval_gt self other = (end_time other \<le> start_time self)"

definition Interval_le :: "ranged \<Rightarrow> ranged \<Rightarrow> bool" where
  "Interval_le self other = (end_time self \<le> end_time other)"

definition Interval_ge :: "ranged \<Rightarrow> ranged \<Rightarrow> bool" where
  "Interval_ge self other = (start_time other \<le> start_time self)"

definition Interval_eq :: "ranged \<Rightarrow> ranged \<Rightarrow> bool" where
  "Interval_eq self other =
     (if start_time self = start_time other \<and> end_time self = end_time other then True
      else False)"

definition Point_lt :: "ranged \<Rightarrow> ranged \<Rightarrow> bool" where
  "Point_lt self other = (time self < start_time other)"

definition Point_gt :: "ranged \<Rightarrow> ranged \<Rightarrow> bool" where
  "Point_gt self other = (end_time other < time self)"

text \<open>Method lookup by class: \<open>Point\<close> overrides \<open>__lt__\<close> and \<open>__gt__\<close> only.\<close>

definition meth_lt :: "ranged \<Rightarrow> ranged \<Rightarrow> bool" where
  "meth_lt self other =
     (case cls self of IntervalC \<Rightarrow> Interval_lt self other | PointC \<Rightarrow> Point_lt self other)"

definition meth_gt :: "ranged \<Rightarrow> ranged \<Rightarrow> bool" where
  "meth_gt self other =
     (case cls self of IntervalC \<Rightarrow> Interval_gt self other | PointC \<Rightarrow> Point_gt self other)"

text \<open>
  The comparison operators. Python evaluates \<open>a < b\<close> as \<open>a.__lt__(b)\<close>, except that when
  the class of \<open>b\<close> is a proper subclass of the class of \<open>a\<close> (here: \<open>a\<close> an \<open>Interval\<close>, \<open>b\<close> a
  \<open>Point\<close>) the reflected method of \<open>b\<close> runs first: \<open>b.__gt__(a)\<close> for \<open><\<close>, \<open>b.__lt__(a)\<close>
  for \<open>>\<close>, \<open>b.__ge__(a)\<close> for \<open><=\<close>, \<open>b.__le__(a)\<close> for \<open>>=\<close>, \<open>b.__eq__(a)\<close> for \<open>==\<close>. No
  method here returns \<open>NotImplemented\<close>, so the first method called decides.
\<close>

definition reflected :: "ranged \<Rightarrow> ranged \<Rightarrow> bool" where
  "reflected a b = (cls a = IntervalC \<and> cls b = PointC)"

definition py_lt :: "ranged \<Rightarrow> ranged \<Rightarrow> bool" where
  "py_lt a b = (if reflected a b then meth_gt b a else meth_lt a b)"

definition py_gt :: "ranged \<Rightarrow> ranged \<Rightarrow> bool" where
  "py_gt a b = (if reflected a b then meth_lt b a else meth_gt a b)"

definition py_le :: "ranged \<Rightarrow> ranged \<Rightarrow> bool" where
  "py_le a b = (if reflected a b then Interval_ge b a else Interval_le a b)"

definition py_ge :: "ranged \<Rightarrow> ranged \<Rightarrow> bool" where
  "py_ge a b = (if reflected a b then Interval_le b a else Interval_ge a b)"

definition py_eq :: "ranged \<Rightarrow> ranged \<Rightarrow> bool" where
  "py_eq a b = (if reflected a b then Interval_eq b a else Interval_eq a b)"

subsection \<open>\<open>duration\<close> and \<open>overlaps\<close>\<close>

definition duration :: "ranged \<Rightarrow> real" where
  "duration self = end_time self - start_time self"

definition overlaps :: "ranged \<Rightarrow> ranged \<Rightarrow> bool" where
  "overlaps self other = (start_time self < end_time other \<and> end_time self > start_time other)"

section \<open>Ordered tier containers\<close>

text \<open>
  \<open>_Tier\<close> with its subclasses \<open>PointTier\<close> and \<open>IntervalTier\<close>: the fields \<open>_name\<close>,
  \<open>_start_time\<close>, \<open>_end_time\<close> and the list \<open>_objects\<close>; \<open>tier_cls\<close> is the class of the
  tier object.
\<close>

datatype tier_cls = PointTierC | IntervalTierC

record tier =
  tier_cls :: tier_cls
  name :: string
  tier_start_time :: real
  tier_end_time :: real
  objects :: "ranged list"

text \<open>\<open>_Tier.__init__\<close>: the bounds must not be negative; their order is not checked.\<close>

definition Tier_init :: "tier_cls \<Rightarrow> string \<Rightarrow> real \<Rightarrow> real \<Rightarrow> error + tier" where
  "Tier_init c n s e =
     (if s < 0 then Inl ValueError
      else if e < 0 then Inl ValueError
      else Inr \<lparr>tier_cls = c, name = n, tier_start_time = s, tier_end_time = e, objects = []\<rparr>)"

text \<open>\<open>PointTier(name)\<close> and \<open>IntervalTier(name)\<close> with the default bounds \<open>0.0\<close>.\<close>

definition new_tier :: "tier_cls \<Rightarrow> string \<Rightarrow> tier" where
  "new_tier c n = \<lparr>tier_cls = c, name = n, tier_start_time = 0, tier_end_time = 0, objects = []\<rparr>"

definition Tier_set_start_time :: "tier \<Rightarrow> real \<Rightarrow> error option \<times> tier" where
  "Tier_set_start_time self other =
     (if other < 0 then (Some ValueError, self)
      else if other > tier_end_time self then (Some ValueError, self)
      else (None, self\<lparr>tier_start_time := other\<rparr>))"

definition Tier_set_end_time :: "tier \<Rightarrow> real \<Rightarrow> error option \<times> tier" where
  "Tier_set_end_time self other =
     (if other < 0 then (Some ValueError, self)
      else if other < tier_start_time self then (Some ValueError, self)
      else (None, self\<lparr>tier_end_time := other\<rparr>))"

subsection \<open>\<open>bisect.bisect_right\<close>\<close>

text \<open>
  The standard library's loop, with \<open>lo = 0\<close> and \<open>hi = len(a)\<close>:
  \<^verbatim>\<open>while lo < hi: mid = (lo + hi) // 2; if x < a[mid]: hi = mid else: lo = mid + 1\<close>
  and \<open>lo\<close> returned. The test \<open>x < a[mid]\<close> is the operator \<open>py_lt\<close>.
\<close>

function bisect_loop :: "ranged list \<Rightarrow> ranged \<Rightarrow> nat \<Rightarrow> nat \<Rightarrow> nat" where
  "bisect_loop a x lo hi =
     (if lo < hi
      then (if py_lt x (a ! ((lo + hi) div 2))
            then bisect_loop a x lo ((lo + hi) div 2)
            else bisect_loop a x ((lo + hi) div 2 + 1) hi)
      else lo)"
  by pat_completeness auto
termination
  by (relation "measure (\<lambda>(a, x, lo, hi). hi - lo)") auto

declare bisect_loop.simps [simp del]

definition bisect_right :: "ranged list \<Rightarrow> ranged \<Rightarrow> nat" where
  "bisect_right a x = bisect_loop a x 0 (length a)"

subsection \<open>\<open>PointTier\<close>\<close>

text \<open>
  \<open>PointTier.add_point\<close>. The argument must have the property \<open>time\<close>, so an \<open>Interval\<close>
  raises \<open>AttributeError\<close> at the first line; hence every stored object is a \<open>Point\<close> and
  \<open>self._objects[i].time\<close> is its \<open>start_time\<close>. \<open>self[-1]\<close> is the last stored object.
\<close>

definition PointTier_add_point :: "tier \<Rightarrow> ranged \<Rightarrow> bool \<Rightarrow> error option \<times> tier" where
  "PointTier_add_point self point overwrite =
     (if cls point \<noteq> PointC then (Some AttributeError, self)
      else
        (case Tier_set_start_time self (min (tier_start_time self) (time point)) of
           (Some e, s1) \<Rightarrow> (Some e, s1)
         | (None, s1) \<Rightarrow>
        (case Tier_set_end_time s1 (max (tier_end_time s1) (time point)) of
           (Some e, s2) \<Rightarrow> (Some e, s2)
         | (None, s2) \<Rightarrow>
             (let objs = objects s2; i = bisect_right objs point in
              if i < length objs \<and> time (objs ! i) = time point then
                (if overwrite
                 then (None, s2\<lparr>objects := objs[i := (objs ! i)\<lparr>text_str := text_str point\<rparr>]\<rparr>)
                 else (None, s2))
              else if i > 0 \<and> i = length objs \<and> time (last objs) = time point then
                (if overwrite
                 then (None, s2\<lparr>objects :=
                        objs[length objs - 1 := (last objs)\<lparr>text_str := text_str point\<rparr>]\<rparr>)
                 else (None, s2))
              else (None, s2\<lparr>objects := take i objs @ [point] @ drop i objs\<rparr>)))))"

definition PointTier_add :: "tier \<Rightarrow> real \<Rightarrow> string \<Rightarrow> bool \<Rightarrow> error option \<times> tier" where
  "PointTier_add self tm t overwrite =
     (case Point_init tm t of
        Inl e \<Rightarrow> (Some e, self)
      | Inr point \<Rightarrow> PointTier_add_point self point overwrite)"

text \<open>
  \<open>list.remove(x)\<close> deletes the first item with \<open>item == x\<close> and raises \<open>ValueError\<close> when
  there is none (\<open>None\<close> below).
\<close>

fun list_remove :: "ranged list \<Rightarrow> ranged \<Rightarrow> ranged list option" where
  "list_remove [] x = None"
| "list_remove (y # ys) x =
     (if py_eq y x then Some ys
      else (case list_remove ys x of None \<Rightarrow> None | Some zs \<Rightarrow> Some (y # zs)))"

definition PointTier_remove_point :: "tier \<Rightarrow> ranged \<Rightarrow> error option \<times> tier" where
  "PointTier_remove_point self point =
     (case list_remove (objects self) point of
        None \<Rightarrow> (Some ValueError, self)
      | Some objs \<Rightarrow> (None, self\<lparr>objects := objs\<rparr>))"

definition PointTier_remove :: "tier \<Rightarrow> real \<Rightarrow> string \<Rightarrow> error option \<times> tier" where
  "PointTier_remove self tm t =
     (case Point_init tm t of
        Inl e \<Rightarrow> (Some e, self)
      | Inr point \<Rightarrow> PointTier_remove_point self point)"

subsection \<open>\<open>IntervalTier\<close>\<close>

definition IntervalTier_add_interval :: "tier \<Rightarrow> ranged \<Rightarrow> bool \<Rightarrow> error option \<times> tier" where
  "IntervalTier_add_interval self interval overwrite =
     (case Tier_set_start_time self (min (tier_start_time self) (start_time interval)) of
        (Some e, s1) \<Rightarrow> (Some e, s1)
      | (None, s1) \<Rightarrow>
     (case Tier_set_end_time s1 (max (tier_end_time s1) (end_time interval)) of
        (Some e, s2) \<Rightarrow> (Some e, s2)
      | (None, s2) \<Rightarrow>
          (let objs = objects s2; i = bisect_right objs interval in
           if i < length objs \<and> py_eq (objs ! i) interval then
             (if overwrite
              then (None, s2\<lparr>objects := objs[i := (objs ! i)\<lparr>text_str := text_str interval\<rparr>]\<rparr>)
              else (None, s2))
           else if i > 0 \<and> i = length objs \<and> py_eq (last objs) interval then
             (if overwrite
              then (None, s2\<lparr>objects :=
                     objs[length objs - 1 := (last objs)\<lparr>text_str := text_str interval\<rparr>]\<rparr>)
              else (None, s2))
           else (None, s2\<lparr>objects := take i objs @ [interval] @ drop i objs\<rparr>))))"

definition IntervalTier_add ::
  "tier \<Rightarrow> real \<Rightarrow> real \<Rightarrow> string \<Rightarrow> bool \<Rightarrow> error option \<times> tier" where
  "IntervalTier_add self s e t overwrite =
     (case Interval_init s e t of
        Inl err \<Rightarrow> (Some err, self)
      | Inr interval \<Rightarrow> IntervalTier_add_interval self interval overwrite)"

definition IntervalTier_remove_interval :: "tier \<Rightarrow> ranged \<Rightarrow> error option \<times> tier" where
  "IntervalTier_remove_interval self interval =
     (case list_remove (objects self) interval of
        None \<Rightarrow> (Some ValueError, self)
      | Some objs \<Rightarrow> (None, self\<lparr>objects := objs\<rparr>))"

definition IntervalTier_remove :: "tier \<Rightarrow> real \<Rightarrow> real \<Rightarrow> string \<Rightarrow> error option \<times> tier" where
  "IntervalTier_remove self s e t =
     (case Interval_init s e t of
        Inl err \<Rightarrow> (Some err, self)
      | Inr interval \<Rightarrow> IntervalTier_remove_interval self interval)"

text \<open>
  \<open>IntervalTier._fill_in_the_gaps\<close>. The loop carries \<open>prev_t\<close> and \<open>output\<close>; a filler is
  \<open>Interval(prev_t, interval.start_time)\<close>, whose text is the default \<open>''\<close> and whose
  constructor can raise. The method assigns nothing to \<open>self\<close>, so it returns the list only.
\<close>

fun fill_loop :: "real \<Rightarrow> ranged list \<Rightarrow> ranged list \<Rightarrow> error + ranged list" where
  "fill_loop prev_t output [] = Inr output"
| "fill_loop prev_t output (interval # rest) =
     (if prev_t < start_time interval then
        (case Interval_init prev_t (start_time interval) [] of
           Inl e \<Rightarrow> Inl e
         | Inr filler \<Rightarrow> fill_loop (end_time interval) (output @ [filler] @ [interval]) rest)
      else fill_loop (end_time interval) (output @ [interval]) rest)"

definition fill_in_the_gaps :: "tier \<Rightarrow> error + ranged list" where
  "fill_in_the_gaps self =
     (case fill_loop (tier_start_time self) [] (objects self) of
        Inl e \<Rightarrow> Inl e
      | Inr output \<Rightarrow>
          (if length output \<noteq> 0 \<and> end_time (last output) < tier_end_time self then
             (case Interval_init (end_time (last output)) (tier_end_time self) [] of
                Inl e \<Rightarrow> Inl e
              | Inr filler \<Rightarrow> Inr (output @ [filler]))
           else Inr output))"

section \<open>The document container \<open>TextGrid\<close>\<close>

record textgrid =
  tg_name :: string
  tg_start_time :: real
  tg_end_time :: real
  tiers :: "tier list"




text \<open>
  \<open>TextGrid.__getitem__\<close>. The key is a \<open>str\<close>, an \<open>int\<close>, or a value of any other type;
  the result \<open>None\<close> is Python's \<open>None\<close>. \<open>self._objects[i]\<close> is list indexing: a negative
  index counts from the end, and an index outside \<open>-len .. len - 1\<close> raises \<open>IndexError\<close>.
\<close>

datatype key = StrKey string | IntKey int | OtherKey

fun first_named :: "tier list \<Rightarrow> string \<Rightarrow> tier option" where
  "first_named [] i = None"
| "first_named (t # ts) i = (if name t = i then Some t else first_named ts i)"

definition list_index :: "'a list \<Rightarrow> int \<Rightarrow> error + 'a" where
  "list_index xs i =
     (if 0 \<le> i \<and> i < int (length xs) then Inr (xs ! nat i)
      else if i < 0 \<and> - int (length xs) \<le> i then Inr (xs ! nat (int (length xs) + i))
      else Inl IndexError)"

definition TextGrid_getitem :: "textgrid \<Rightarrow> key \<Rightarrow> error + tier option" where
  "TextGrid_getitem self i =
     (case i of
        StrKey s \<Rightarrow> Inr (first_named (tiers self) s)
      | IntKey k \<Rightarrow> (case list_index (tiers self) k of Inl e \<Rightarrow> Inl e | Inr t \<Rightarrow> Inr (Some t))
      | OtherKey \<Rightarrow> Inl TypeError)"

text \<open>\<open>TextGrid.index\<close>: the loop over \<open>enumerate(self._objects)\<close>, \<open>k\<close> the running position.\<close>

fun index_loop :: "tier list \<Rightarrow> string \<Rightarrow> nat \<Rightarrow> nat option" where
  "index_loop [] n k = None"
| "index_loop (t # ts) n k = (if name t = n then Some k else index_loop ts n (k + 1))"

definition TextGrid_index :: "textgrid \<Rightarrow> string \<Rightarrow> nat option" where
  "TextGrid_index self n = index_loop (tiers self) n 0"


subsection \<open>\<open>TextGrid.extract_selected\<close>\<close>







section \<open>The Praat tier file of a \<open>PointTier\<close>\<close>

text \<open>
  A file is its content, a string. Of Python's built-ins, \<open>str.split\<close>, \<open>str.strip\<close> and
  \<open>readline\<close> are written out; formatting a float (\<open>str_float\<close>) and parsing numbers
  (\<open>py_float\<close>, \<open>py_int\<close>, \<open>None\<close> for the \<open>ValueError\<close> of a string that is no number)
  are parameters of the codec.
\<close>

definition dq :: string where
  "dq = [CHR 0x22]"

definition nl :: string where
  "nl = [CHR 0x0A]"

definition tab :: string where
  "tab = [CHR 0x09]"

definition digit_char :: "nat \<Rightarrow> char" where
  "digit_char d = char_of (48 + d)"

text \<open>\<open>str(n)\<close> for a non-negative \<open>int\<close>.\<close>

fun str_nat :: "nat \<Rightarrow> string" where
  "str_nat n = (if n < 10 then [digit_char n] else str_nat (n div 10) @ [digit_char (n mod 10)])"

declare str_nat.simps [simp del]

text \<open>\<open>PointTier.write\<close>: the text written to the file, in the order of the \<open>fout.write\<close> calls.\<close>

definition point_block :: "(real \<Rightarrow> string) \<Rightarrow> nat \<times> ranged \<Rightarrow> string" where
  "point_block str_float ip =
     ''points ['' @ str_nat (fst ip) @ '']:'' @ nl @
     tab @ ''time = '' @ str_float (time (snd ip)) @ nl @
     tab @ ''text = '' @ text_str (snd ip) @ nl"

definition PointTier_write :: "(real \<Rightarrow> string) \<Rightarrow> tier \<Rightarrow> string \<Rightarrow> string" where
  "PointTier_write str_float self object_class =
     ''File type = '' @ dq @ ''ooTextFile'' @ dq @ nl @
     ''Object class = '' @ dq @ object_class @ dq @ nl @ nl @
     ''Object class = '' @ dq @ ''TextTier'' @ dq @ nl @ nl @
     ''xmin = '' @ str_float (tier_start_time self) @ nl @
     ''xmax = '' @ str_float (tier_end_time self) @ nl @
     ''points: size = '' @ str_nat (length (objects self)) @ nl @
     concat (map (point_block str_float) (enumerate 1 (objects self)))"

text \<open>\<open>readline\<close>: the next line with its newline, and the rest of the file.\<close>

fun readline :: "string \<Rightarrow> string \<times> string" where
  "readline [] = ([], [])"
| "readline (c # cs) =
     (if c = CHR 0x0A then ([c], cs)
      else (case readline cs of (l, r) \<Rightarrow> (c # l, r)))"

text \<open>
  \<open>line.split(' = ')[-1]\<close>: the separator is searched from the left, and the piece after
  its last match is returned (the whole line when there is none); \<open>acc\<close> is the piece under
  construction.
\<close>

fun split_last :: "string \<Rightarrow> string \<Rightarrow> string" where
  "split_last acc [] = acc"
| "split_last acc (c # cs) =
     (if take 3 (c # cs) = '' = '' then split_last [] (drop 2 cs)
      else split_last (acc @ [c]) cs)"

text \<open>\<open>str.strip()\<close> removes white space at both ends, \<open>str.strip(chars)\<close> the given characters.\<close>

definition is_space :: "char \<Rightarrow> bool" where
  "is_space c = (c \<in> set [CHR 0x09, CHR 0x0A, CHR 0x0B, CHR 0x0C, CHR 0x0D,
                          CHR 0x1C, CHR 0x1D, CHR 0x1E, CHR 0x1F, CHR 0x20])"

definition strip_with :: "(char \<Rightarrow> bool) \<Rightarrow> string \<Rightarrow> string" where
  "strip_with p s = rev (dropWhile p (rev (dropWhile p s)))"

definition strip :: "string \<Rightarrow> string" where
  "strip s = strip_with is_space s"

definition strip_chars :: "string \<Rightarrow> string \<Rightarrow> string" where
  "strip_chars chars s = strip_with (\<lambda>c. c \<in> set chars) s"

text \<open>The field of a line: \<open>line.split(' = ')[-1].strip()\<close>.\<close>

definition field :: "string \<Rightarrow> string" where
  "field line = strip (split_last [] line)"

text \<open>The loop \<open>for i in range(tier_size)\<close> of \<open>PointTier.read\<close>.\<close>

fun read_points ::
  "(string \<Rightarrow> real option) \<Rightarrow> nat \<Rightarrow> string \<Rightarrow> tier \<Rightarrow> error option \<times> tier" where
  "read_points py_float 0 source self = (None, self)"
| "read_points py_float (Suc n) source self =
     (let r1 = snd (readline source);
          l2 = fst (readline r1); r2 = snd (readline r1);
          l3 = fst (readline r2); r3 = snd (readline r2)
      in (case py_float (field l2) of
            None \<Rightarrow> (Some ValueError, self)
          | Some tm \<Rightarrow>
              (case PointTier_add self tm (strip_chars dq (field l3)) False of
                 (Some e, s') \<Rightarrow> (Some e, s')
               | (None, s') \<Rightarrow> read_points py_float n r3 s')))"

text \<open>
  \<open>PointTier.read\<close> on the content \<open>source\<close> of the file: three lines are skipped, the
  fourth and fifth give the bounds, the sixth the number of points.
\<close>

definition PointTier_read ::
  "(string \<Rightarrow> real option) \<Rightarrow> (string \<Rightarrow> int option) \<Rightarrow> tier \<Rightarrow> string \<Rightarrow>
   error option \<times> tier" where
  "PointTier_read py_float py_int self source =
     (let r3 = snd (readline (snd (readline (snd (readline source)))));
          l4 = fst (readline r3); r4 = snd (readline r3);
          l5 = fst (readline r4); r5 = snd (readline r4);
          l6 = fst (readline r5); r6 = snd (readline r5)
      in (case py_float (field l4) of
            None \<Rightarrow> (Some ValueError, self)
          | Some v1 \<Rightarrow>
              (case Tier_set_start_time self v1 of
                 (Some e, s1) \<Rightarrow> (Some e, s1)
               | (None, s1) \<Rightarrow>
                   (case py_float (field l5) of
                      None \<Rightarrow> (Some ValueError, s1)
                    | Some v2 \<Rightarrow>
                        (case Tier_set_end_time s1 v2 of
                           (Some e, s2) \<Rightarrow> (Some e, s2)
                         | (None, s2) \<Rightarrow>
                             (case py_int (field l6) of
                                None \<Rightarrow> (Some ValueError, s2)
                              | Some tier_size \<Rightarrow>
                                  read_points py_float (nat tier_size) r6 s2))))))"

text \<open>
  A parser for the plain decimal spellings of a float, \<open>[+|-] digits [. digits]\<close> with at
  least one digit: an instance of the parameter \<open>py_float\<close> on the strings used below.
\<close>

definition digit_of :: "char \<Rightarrow> nat option" where
  "digit_of c =
     (let n = (of_char c :: nat) in if 48 \<le> n \<and> n \<le> 57 then Some (n - 48) else None)"

fun nat_of_digits :: "string \<Rightarrow> nat \<Rightarrow> nat option" where
  "nat_of_digits [] acc = Some acc"
| "nat_of_digits (c # cs) acc =
     (case digit_of c of None \<Rightarrow> None | Some d \<Rightarrow> nat_of_digits cs (10 * acc + d))"

definition dec_unsigned :: "string \<Rightarrow> real option" where
  "dec_unsigned s =
     (let ip = takeWhile (\<lambda>c. c \<noteq> CHR ''.'') s;
          fp = drop 1 (dropWhile (\<lambda>c. c \<noteq> CHR ''.'') s)
      in if ip = [] \<and> fp = [] then None
         else (case (nat_of_digits ip 0, nat_of_digits fp 0) of
                 (Some a, Some b) \<Rightarrow> Some (real a + real b / 10 ^ length fp)
               | _ \<Rightarrow> None))"

definition dec_float :: "string \<Rightarrow> real option" where
  "dec_float s =
     (case s of
        [] \<Rightarrow> None
      | c # cs \<Rightarrow>
          if c = CHR ''-'' then map_option uminus (dec_unsigned cs)
          else if c = CHR ''+'' then dec_unsigned cs
          else dec_unsigned s)"

definition dec_int :: "string \<Rightarrow> int option" where
  "dec_int s =
     (case s of
        [] \<Rightarrow> None
      | c # cs \<Rightarrow>
          if c = CHR ''-'' then (if cs = [] then None else map_option (\<lambda>n. - int n) (nat_of_digits cs 0))
          else if c = CHR ''+'' then (if cs = [] then None else map_option int (nat_of_digits cs 0))
          else map_option int (nat_of_digits s 0))"

section \<open>Notions used to state the properties\<close>

text \<open>
  A list of intervals tiles \<open>[lo, hi]\<close> when the first starts at \<open>lo\<close>, each next one starts
  where the one before ends, and the last ends at \<open>hi\<close>.
\<close>

fun tiles :: "real \<Rightarrow> real \<Rightarrow> ranged list \<Rightarrow> bool" where
  "tiles lo hi [] = (lo = hi)"
| "tiles lo hi (x # xs) = (start_time x = lo \<and> start_time x \<le> end_time x \<and> tiles (end_time x) hi xs)"

text \<open>
  Gap filling as the specification words it: a running cursor starts at the tier's
  \<open>start_time\<close>; an empty-text interval is put before every interval whose start exceeds the
  cursor; after the last interval a trailing empty-text interval is put when the cursor is
  below the tier's \<open>end_time\<close>.
\<close>

definition filler :: "real \<Rightarrow> real \<Rightarrow> ranged" where
  "filler a b = \<lparr>cls = IntervalC, start_time = a, end_time = b, text_str = []\<rparr>"

fun gap_filled_spec :: "real \<Rightarrow> real \<Rightarrow> ranged list \<Rightarrow> ranged list" where
  "gap_filled_spec cursor hi [] = (if cursor < hi then [filler cursor hi] else [])"
| "gap_filled_spec cursor hi (x # xs) =
     (if cursor < start_time x then [filler cursor (start_time x)] else []) @
     x # gap_filled_spec (end_time x) hi xs"




text \<open>
  What \<open>bisect_right\<close> is to find: a position \<open>i\<close> such that the new element is not
  \<open><\<close> any element before \<open>i\<close> and is \<open><\<close> every element from \<open>i\<close> on.
\<close>

definition split_at :: "ranged list \<Rightarrow> ranged \<Rightarrow> nat \<Rightarrow> bool" where
  "split_at a x i \<longleftrightarrow> i \<le> length a \<and> (\<forall>j < i. \<not> py_lt x (a ! j)) \<and>
     (\<forall>j. i \<le> j \<and> j < length a \<longrightarrow> py_lt x (a ! j))"

text \<open>A list of \<open>Point\<close>s in strictly increasing order of time.\<close>

definition points_sorted :: "ranged list \<Rightarrow> bool" where
  "points_sorted a \<longleftrightarrow> list_all (\<lambda>p. cls p = PointC) a \<and> sorted_wrt (\<lambda>u v. time u < time v) a"

text \<open>
  A client that inserts the points of a list one by one: \<open>tier.add(time, text)\<close> for each
  pair, in order; an exception ends the loop.
\<close>

fun add_each :: "tier \<Rightarrow> (real \<times> string) list \<Rightarrow> error option \<times> tier" where
  "add_each self [] = (None, self)"
| "add_each self (p # ps) =
     (case PointTier_add self (fst p) (snd p) False of
        (Some e, s') \<Rightarrow> (Some e, s')
      | (None, s') \<Rightarrow> add_each s' ps)"

text \<open>Values used as concrete inputs.\<close>

definition mk_point :: "real \<Rightarrow> string \<Rightarrow> ranged" where
  "mk_point tm t = \<lparr>cls = PointC, start_time = tm, end_time = tm, text_str = t\<rparr>"

definition mk_interval :: "real \<Rightarrow> real \<Rightarrow> string \<Rightarrow> ranged" where
  "mk_interval s e t = \<lparr>cls = IntervalC, start_time = s, end_time = e, text_str = t\<rparr>"

definition mk_tier :: "tier_cls \<Rightarrow> real \<Rightarrow> real \<Rightarrow> ranged list \<Rightarrow> tier" where
  "mk_tier c s e objs =
     \<lparr>tier_cls = c, name = ''t'', tier_start_time = s, tier_end_time = e, objects = objs\<rparr>"

section \<open>Properties of the primitives\<close>

lemmas cmp_defs =
  py_lt_def py_gt_def py_le_def py_ge_def py_eq_def reflected_def meth_lt_def meth_gt_def
  Interval_lt_def Interval_gt_def Interval_le_def Interval_ge_def Interval_eq_def
  Point_lt_def Point_gt_def time_def

text \<open>
  C6, as stated, fails: for a \<open>Point\<close> on the left, \<open><\<close> is strict. \<open>Point(1.0) < Point(1.0)\<close>
  is false although the end of the left operand is \<open>\<le>\<close> the start of the right one.
\<close>

theorem C6_point_lt_is_strict:
  "\<not> (py_lt (mk_point 1 ''a'') (mk_point 1 ''b'') \<longleftrightarrow>
       end_time (mk_point 1 ''a'') \<le> start_time (mk_point 1 ''b''))"
  by (simp add: cmp_defs mk_point_def)

text \<open>
  C6, amended. Equality holds iff both bounds match, whatever the classes and texts. When
  the left operand is a \<open>Point\<close>, or both are \<open>Interval\<close>s, \<open><=\<close> and \<open>>=\<close> are as stated
  (\<open>a <= b\<close> iff \<open>a.end_time <= b.end_time\<close>, \<open>a >= b\<close> iff \<open>b.start_time <= a.start_time\<close>).
  For two \<open>Interval\<close>s, \<open><\<close> and \<open>>\<close> are as stated (\<open>a < b\<close> iff \<open>a.end_time <= b.start_time\<close>,
  \<open>a > b\<close> iff \<open>b.end_time <= a.start_time\<close>). For a \<open>Point\<close> \<open>a\<close> they are strict:
  \<open>a < b\<close> iff \<open>a.time < b.start_time\<close> and \<open>a > b\<close> iff \<open>b.end_time < a.time\<close>; and for
  an \<open>Interval\<close> \<open>a\<close> against a \<open>Point\<close> \<open>b\<close> they are strict as well: \<open>a < b\<close> iff
  \<open>a.end_time < b.time\<close> and \<open>a > b\<close> iff \<open>b.time < a.start_time\<close>.
\<close>

theorem C6_comparisons:
  "(py_eq a b \<longleftrightarrow> start_time a = start_time b \<and> end_time a = end_time b) \<and>
   (cls a = PointC \<or> cls b = IntervalC \<longrightarrow>
      (py_le a b \<longleftrightarrow> end_time a \<le> end_time b) \<and>
      (py_ge a b \<longleftrightarrow> start_time b \<le> start_time a)) \<and>
   (cls a = IntervalC \<and> cls b = IntervalC \<longrightarrow>
      (py_lt a b \<longleftrightarrow> end_time a \<le> start_time b) \<and>
      (py_gt a b \<longleftrightarrow> end_time b \<le> start_time a)) \<and>
   (cls a = PointC \<longrightarrow>
      (py_lt a b \<longleftrightarrow> time a < start_time b) \<and>
      (py_gt a b \<longleftrightarrow> end_time b < time a)) \<and>
   (cls a = IntervalC \<and> cls b = PointC \<longrightarrow>
      (py_lt a b \<longleftrightarrow> end_time a < time b) \<and>
      (py_gt a b \<longleftrightarrow> time b < start_time a))"
  by (cases "cls a"; cases "cls b") (auto simp: cmp_defs)

theorem C6_comparisons_witness:
  "(py_eq (mk_interval 3 4 ''foo'') (mk_interval 3 4 ''bar'')) \<and>
   (py_le (mk_interval 3 4 []) (mk_interval (7/2) 5 [])) \<and>
   (py_lt (mk_interval 3 4 []) (mk_interval 4 5 [])) \<and>
   (\<not> py_lt (mk_point 4 []) (mk_point 4 [])) \<and>
   (py_lt (mk_point 3 []) (mk_interval 4 5 [])) \<and>
   (\<not> py_lt (mk_interval 3 4 []) (mk_point 4 []))"
  using C6_comparisons [of "mk_interval 3 4 []" "mk_point 4 []"] C6_comparisons [of "mk_interval 3 4 ''foo''" "mk_interval 3 4 ''bar''"]
    C6_comparisons [of "mk_interval 3 4 []" "mk_interval (7/2) 5 []"]
    C6_comparisons [of "mk_interval 3 4 []" "mk_interval 4 5 []"]
    C6_comparisons [of "mk_point 4 []" "mk_point 4 []"]
    C6_comparisons [of "mk_point 3 []" "mk_interval 4 5 []"]
  by (simp add: mk_interval_def mk_point_def time_def)

text \<open>
  C8, as stated, fails: the zero-duration interval \<open>Interval(5, 5)\<close> overlaps
  \<open>Interval(0, 10)\<close>, in both directions.
\<close>

theorem C8_zero_duration_overlaps:
  "duration (mk_interval 5 5 []) = 0 \<and>
   overlaps (mk_interval 5 5 []) (mk_interval 0 10 []) \<and>
   overlaps (mk_interval 0 10 []) (mk_interval 5 5 [])"
  by (simp add: duration_def overlaps_def mk_interval_def)

text \<open>
  C8, amended. \<open>a.overlaps(a)\<close> holds exactly when \<open>a.duration() > 0\<close>, so a zero-duration
  interval does not overlap itself; a zero-duration interval \<open>z\<close> overlaps \<open>b\<close>, and \<open>b\<close>
  overlaps \<open>z\<close>, exactly when the time of \<open>z\<close> lies strictly between the bounds of \<open>b\<close>.
\<close>

theorem C8_overlaps:
  "(overlaps a a \<longleftrightarrow> duration a > 0) \<and>
   (duration z = 0 \<longrightarrow>
      (overlaps z b \<longleftrightarrow> start_time b < start_time z \<and> start_time z < end_time b) \<and>
      (overlaps b z \<longleftrightarrow> start_time b < start_time z \<and> start_time z < end_time b) \<and>
      \<not> overlaps z z)"
  by (auto simp: overlaps_def duration_def)

theorem C8_overlaps_witness:
  "overlaps (mk_interval 1 2 []) (mk_interval 1 2 []) \<and>
   duration (mk_interval 5 5 []) = 0 \<and>
   \<not> overlaps (mk_interval 5 5 []) (mk_interval 5 10 []) \<and>
   \<not> overlaps (mk_interval 5 10 []) (mk_interval 5 5 []) \<and>
   \<not> overlaps (mk_interval 5 5 []) (mk_interval 5 5 [])"
  using C8_overlaps [of "mk_interval 1 2 []" "mk_interval 5 5 []" "mk_interval 5 10 []"]
  by (simp add: mk_interval_def duration_def)

text \<open>The setters \<open>start_time\<close> and \<open>end_time\<close> reject every negative value.\<close>

lemma setters_reject_negative:
  "v < 0 \<Longrightarrow> set_start_time x v = (Some ValueError, x) \<and> set_end_time x v = (Some ValueError, x)"
  by (simp add: set_start_time_def set_end_time_def)

text \<open>
  C3, at the failing input: on \<open>Point(3.0, 'foo')\<close> the assignment \<open>time = -1.0\<close> raises
  nothing and stores the negative value in both bounds, while the setters \<open>start_time\<close> and
  \<open>end_time\<close> raise on the same value and leave the object as it was.
\<close>

theorem C3_point_time_setter_accepts_negative:
  "set_time (mk_point 3 ''foo'') (- 1) = (None, mk_point (- 1) ''foo'') \<and>
   set_start_time (mk_point 3 ''foo'') (- 1) = (Some ValueError, mk_point 3 ''foo'') \<and>
   set_end_time (mk_point 3 ''foo'') (- 1) = (Some ValueError, mk_point 3 ''foo'')"
  by (simp add: set_time_def set_start_time_def set_end_time_def mk_point_def)

section \<open>Properties of the tiers\<close>

lemmas add_defs =
  PointTier_add_def PointTier_add_point_def IntervalTier_add_def IntervalTier_add_interval_def
  Point_init_def Interval_init_def ranged_init_def Tier_set_start_time_def
  Tier_set_end_time_def bisect_right_def

text \<open>
  C1, at failing inputs. A \<open>PointTier\<close> holds points at \<open>1.0\<close> and \<open>2.0\<close>; \<open>add(1.0, 'x')\<close>
  inserts a second point at \<open>1.0\<close>, and with \<open>overwrite=True\<close> it does the same and leaves
  the text \<open>'a'\<close> of the stored point. An \<open>IntervalTier\<close> holds \<open>(0, 1)\<close> and \<open>(1, 2)\<close>;
  \<open>add(0, 1, 'x')\<close> inserts a second \<open>(0, 1)\<close>. The match is found only when it is the last
  element.
\<close>

theorem C1_duplicate_inserted:
  "PointTier_add (mk_tier PointTierC 0 2 [mk_point 1 ''a'', mk_point 2 ''b'']) 1 ''x'' False =
     (None, mk_tier PointTierC 0 2 [mk_point 1 ''a'', mk_point 1 ''x'', mk_point 2 ''b'']) \<and>
   PointTier_add (mk_tier PointTierC 0 2 [mk_point 1 ''a'', mk_point 2 ''b'']) 1 ''x'' True =
     (None, mk_tier PointTierC 0 2 [mk_point 1 ''a'', mk_point 1 ''x'', mk_point 2 ''b'']) \<and>
   IntervalTier_add (mk_tier IntervalTierC 0 2 [mk_interval 0 1 ''a'', mk_interval 1 2 ''b''])
       0 1 ''x'' False =
     (None, mk_tier IntervalTierC 0 2
        [mk_interval 0 1 ''a'', mk_interval 0 1 ''x'', mk_interval 1 2 ''b'']) \<and>
   PointTier_add (mk_tier PointTierC 0 2 [mk_point 1 ''a'', mk_point 2 ''b'']) 2 ''x'' False =
     (None, mk_tier PointTierC 0 2 [mk_point 1 ''a'', mk_point 2 ''b''])"
  by (simp add: add_defs bisect_loop.simps cmp_defs mk_tier_def mk_point_def mk_interval_def)

subsection \<open>Binary search and insertion\<close>

lemma bisect_loop_stop: "\<not> lo < hi \<Longrightarrow> bisect_loop a x lo hi = lo"
  by (subst bisect_loop.simps) simp

lemma bisect_loop_left:
  "lo < hi \<Longrightarrow> py_lt x (a ! ((lo + hi) div 2)) \<Longrightarrow>
   bisect_loop a x lo hi = bisect_loop a x lo ((lo + hi) div 2)"
  by (subst bisect_loop.simps) simp

lemma bisect_loop_right:
  "lo < hi \<Longrightarrow> \<not> py_lt x (a ! ((lo + hi) div 2)) \<Longrightarrow>
   bisect_loop a x lo hi = bisect_loop a x ((lo + hi) div 2 + 1) hi"
  by (subst bisect_loop.simps) simp

lemma bisect_loop_bounds:
  "(\<forall>j k. j \<le> k \<and> k < length a \<and> py_lt x (a ! j) \<longrightarrow> py_lt x (a ! k)) \<Longrightarrow>
     lo \<le> hi \<Longrightarrow> hi \<le> length a \<Longrightarrow>
     (\<forall>j < lo. \<not> py_lt x (a ! j)) \<Longrightarrow>
     (\<forall>j. hi \<le> j \<and> j < length a \<longrightarrow> py_lt x (a ! j)) \<Longrightarrow>
     split_at a x (bisect_loop a x lo hi)"
proof (induction a x lo hi rule: bisect_loop.induct)
  case (1 a x lo hi)
  let ?mid = "(lo + hi) div 2"
  note mono = "1.prems"(1)
  show ?case
  proof (cases "lo < hi")
    case False
    then have "bisect_loop a x lo hi = lo" by (rule bisect_loop_stop)
    moreover have "lo = hi" using False "1.prems"(2) by simp
    ultimately show ?thesis
      using "1.prems"(3,4,5) unfolding split_at_def by simp
  next
    case True
    then have mid: "lo \<le> ?mid" "?mid < hi" by auto
    show ?thesis
    proof (cases "py_lt x (a ! ?mid)")
      case lt: True
      have up: "\<forall>j. ?mid \<le> j \<and> j < length a \<longrightarrow> py_lt x (a ! j)"
        using lt mono by blast
      have le: "?mid \<le> length a" using mid "1.prems"(3) by simp
      have "split_at a x (bisect_loop a x lo ?mid)"
        by (rule "1.IH"(1) [OF True lt mono mid(1) le "1.prems"(4) up])
      then show ?thesis
        by (simp only: bisect_loop_left [OF True lt])
    next
      case nlt: False
      have low: "\<forall>j < ?mid + 1. \<not> py_lt x (a ! j)"
      proof (intro allI impI notI)
        fix j assume j: "j < ?mid + 1" and l: "py_lt x (a ! j)"
        have "j \<le> ?mid" "?mid < length a"
          using j mid "1.prems"(3) by simp_all
        with l mono have "py_lt x (a ! ?mid)" by blast
        with nlt show False by simp
      qed
      have le: "?mid + 1 \<le> hi" using mid by simp
      have "split_at a x (bisect_loop a x (?mid + 1) hi)"
        by (rule "1.IH"(2) [OF True nlt mono le "1.prems"(3) low "1.prems"(5)])
      then show ?thesis
        by (simp only: bisect_loop_right [OF True nlt])
    qed
  qed
qed

lemma bisect_right_split:
  assumes "\<forall>j k. j \<le> k \<and> k < length a \<and> py_lt x (a ! j) \<longrightarrow> py_lt x (a ! k)"
  shows "split_at a x (bisect_right a x)"
  unfolding bisect_right_def
  by (rule bisect_loop_bounds) (use assms in auto)

lemma py_lt_points: "cls x = PointC \<Longrightarrow> cls y = PointC \<Longrightarrow> py_lt x y \<longleftrightarrow> time x < time y"
  by (simp add: cmp_defs)

lemma points_sorted_mono:
  assumes "points_sorted a" and "cls x = PointC"
  shows "\<forall>j k. j \<le> k \<and> k < length a \<and> py_lt x (a ! j) \<longrightarrow> py_lt x (a ! k)"
proof (intro allI impI)
  fix j k assume h: "j \<le> k \<and> k < length a \<and> py_lt x (a ! j)"
  have cj: "cls (a ! j) = PointC" and ck: "cls (a ! k) = PointC"
    using assms(1) h by (auto simp: points_sorted_def list_all_length)
  have "time (a ! j) \<le> time (a ! k)"
  proof (cases "j = k")
    case True then show ?thesis by simp
  next
    case False
    with h have "j < k" "k < length a" by auto
    with assms(1) have "time (a ! j) < time (a ! k)"
      by (auto simp: points_sorted_def sorted_wrt_iff_nth_less)
    then show ?thesis by simp
  qed
  moreover have "time x < time (a ! j)" using h cj assms(2) by (simp add: py_lt_points)
  ultimately show "py_lt x (a ! k)" using ck assms(2) by (simp add: py_lt_points)
qed

lemma insert_keeps_points_sorted:
  assumes ps: "points_sorted a" and cx: "cls x = PointC"
    and fresh: "time x \<notin> time ` set a" and sp: "split_at a x i"
  shows "points_sorted (take i a @ [x] @ drop i a)"
proof -
  have cls_a: "\<And>u. u \<in> set a \<Longrightarrow> cls u = PointC"
    using ps by (auto simp: points_sorted_def list_all_iff)
  have before: "time u < time x" if "u \<in> set (take i a)" for u
  proof -
    from that obtain j where j: "j < length (take i a)" "u = take i a ! j"
      by (auto simp: in_set_conv_nth)
    then have ji: "j < i" "j < length a" "u = a ! j" by auto
    then have "\<not> py_lt x (a ! j)" using sp by (simp add: split_at_def)
    moreover have "u \<in> set a" using ji by simp
    ultimately have "time u \<le> time x" using ji cx cls_a by (simp add: py_lt_points)
    moreover have "time u \<noteq> time x" using fresh \<open>u \<in> set a\<close> by (metis imageI)
    ultimately show ?thesis by simp
  qed
  have after: "time x < time v" if "v \<in> set (drop i a)" for v
  proof -
    from that obtain j where j: "j < length (drop i a)" "v = drop i a ! j"
      by (auto simp: in_set_conv_nth)
    then have ji: "i + j < length a" "v = a ! (i + j)" by auto
    then have "py_lt x (a ! (i + j))" using sp by (simp add: split_at_def)
    moreover have "v \<in> set a" using ji by simp
    ultimately show ?thesis using ji cx cls_a by (simp add: py_lt_points)
  qed
  have "sorted_wrt (\<lambda>u v. time u < time v) (take i a)"
    "sorted_wrt (\<lambda>u v. time u < time v) (drop i a)"
    using ps by (simp_all add: points_sorted_def sorted_wrt_take sorted_wrt_drop)
  moreover have "\<forall>u \<in> set (take i a). \<forall>v \<in> set (drop i a). time u < time v"
    using before after by fastforce
  ultimately have "sorted_wrt (\<lambda>u v. time u < time v) (take i a @ [x] @ drop i a)"
    using before after by (simp add: sorted_wrt_append)
  moreover have "list_all (\<lambda>p. cls p = PointC) (take i a @ [x] @ drop i a)"
    using cls_a cx by (auto simp: list_all_iff dest: in_set_takeD in_set_dropD)
  ultimately show ?thesis by (simp add: points_sorted_def)
qed

lemma PointTier_add_fresh:
  assumes "tier_start_time t = 0" and "0 \<le> tier_end_time t"
    and ps: "points_sorted (objects t)"
    and tm: "0 \<le> tm" and fresh: "tm \<notin> time ` set (objects t)"
  shows "\<exists>objs. PointTier_add t tm txt False =
           (None, t\<lparr>tier_end_time := max (tier_end_time t) tm, objects := objs\<rparr>) \<and>
         points_sorted objs \<and> set objs = insert (mk_point tm txt) (set (objects t))"
proof -
  let ?p = "mk_point tm txt" and ?a = "objects t"
  let ?i = "bisect_right ?a ?p"
  have init: "Point_init tm txt = Inr ?p"
    using tm by (simp add: Point_init_def ranged_init_def mk_point_def)
  have cp: "cls ?p = PointC" and tp: "time ?p = tm" by (simp_all add: mk_point_def time_def)
  have sp: "split_at ?a ?p ?i"
    by (rule bisect_right_split) (rule points_sorted_mono [OF ps cp])
  have fresh': "time ?p \<notin> time ` set ?a" using fresh tp by simp
  have sorted': "points_sorted (take ?i ?a @ [?p] @ drop ?i ?a)"
    by (rule insert_keeps_points_sorted [OF ps cp fresh' sp])
  have no1: "\<not> (?i < length ?a \<and> time (?a ! ?i) = tm)"
    using fresh by (metis image_eqI nth_mem)
  have no2: "\<not> (?i > 0 \<and> ?i = length ?a \<and> time (last ?a) = tm)"
    using fresh by (metis image_eqI last_in_set length_greater_0_conv)
  have s1: "Tier_set_start_time t (min (tier_start_time t) tm) = (None, t)"
    using assms(1,2) tm by (simp add: Tier_set_start_time_def)
  have s2: "Tier_set_end_time t (max (tier_end_time t) tm) =
      (None, t\<lparr>tier_end_time := max (tier_end_time t) tm\<rparr>)"
    using assms(1,2) tm by (simp add: Tier_set_end_time_def)
  have "PointTier_add t tm txt False =
      (None, t\<lparr>tier_end_time := max (tier_end_time t) tm,
                objects := take ?i ?a @ [?p] @ drop ?i ?a\<rparr>)"
    using init cp tp s1 s2 no1 no2 by (auto simp add: PointTier_add_def PointTier_add_point_def Let_def)
  moreover have "set (take ?i ?a @ [?p] @ drop ?i ?a) = insert ?p (set ?a)"
  proof -
    have "set (take ?i ?a) \<union> set (drop ?i ?a) = set ?a"
      by (metis append_take_drop_id set_append)
    then show ?thesis by auto
  qed
  ultimately show ?thesis using sorted' by blast
qed


lemma points_sorted_unique:
  assumes "points_sorted xs" and "points_sorted ys" and "set xs = set ys"
  shows "xs = ys"
proof -
  have sx: "sorted_wrt (<) (map time xs)" and sy: "sorted_wrt (<) (map time ys)"
    using assms(1,2) by (simp_all add: points_sorted_def sorted_wrt_map)
  have "set (map time ys) = set (map time xs)" using assms(3) by simp
  with sx sy have eq: "map time xs = map time ys"
    by (metis strict_sorted_equal)
  have "distinct (map time xs)" using sx by (simp add: strict_sorted_iff)
  then have "inj_on time (set xs \<union> set ys)"
    using assms(3) by (simp add: distinct_map)
  then show ?thesis using eq by (simp add: inj_on_map_eq_map)
qed

lemma Max_insert_max:
  "finite S \<Longrightarrow> Max (insert (max e a) S) = Max (insert (e::real) (insert a S))"
  by (cases "S = {}") (simp_all add: max.assoc)

lemma add_each_distinct:
  assumes "tier_start_time t = 0" and "0 \<le> tier_end_time t"
    and "points_sorted (objects t)" and "distinct (map fst ps)"
    and "\<forall>p \<in> set ps. 0 \<le> fst p \<and> fst p \<notin> time ` set (objects t)"
  shows "\<exists>objs. add_each t ps =
           (None, t\<lparr>tier_end_time := Max (insert (tier_end_time t) (fst ` set ps)),
                     objects := objs\<rparr>) \<and>
         points_sorted objs \<and>
         set objs = set (objects t) \<union> (\<lambda>p. mk_point (fst p) (snd p)) ` set ps"
  using assms
proof (induction ps arbitrary: t)
  case Nil
  then show ?case by (intro exI [of _ "objects t"]) simp
next
  case (Cons p ps)
  let ?t1 = "\<lambda>objs. t\<lparr>tier_end_time := max (tier_end_time t) (fst p), objects := objs\<rparr>"
  from Cons.prems have p0: "0 \<le> fst p" and pf: "fst p \<notin> time ` set (objects t)" by auto
  from PointTier_add_fresh [OF Cons.prems(1,2,3) p0 pf, of "snd p"]
  obtain o1 where o1: "PointTier_add t (fst p) (snd p) False = (None, ?t1 o1)"
    "points_sorted o1" "set o1 = insert (mk_point (fst p) (snd p)) (set (objects t))"
    by blast
  have fresh: "\<forall>q \<in> set ps. 0 \<le> fst q \<and> fst q \<notin> time ` set (objects (?t1 o1))"
  proof
    fix q assume q: "q \<in> set ps"
    then have "fst q \<noteq> fst p" using Cons.prems(4) by (metis distinct.simps(2) imageI list.simps(9) list.set_map)
    moreover have "0 \<le> fst q" "fst q \<notin> time ` set (objects t)" using q Cons.prems(5) by auto
    ultimately show "0 \<le> fst q \<and> fst q \<notin> time ` set (objects (?t1 o1))"
      using o1(3) by (auto simp: mk_point_def time_def)
  qed
  have "\<exists>objs. add_each (?t1 o1) ps =
           (None, (?t1 o1)\<lparr>tier_end_time := Max (insert (tier_end_time (?t1 o1)) (fst ` set ps)),
                     objects := objs\<rparr>) \<and>
         points_sorted objs \<and>
         set objs = set (objects (?t1 o1)) \<union> (\<lambda>p. mk_point (fst p) (snd p)) ` set ps"
  proof (rule Cons.IH)
    show "tier_start_time (?t1 o1) = 0" using Cons.prems(1) by simp
    show "0 \<le> tier_end_time (?t1 o1)" using Cons.prems(2) by simp
    show "points_sorted (objects (?t1 o1))" using o1(2) by simp
    show "distinct (map fst ps)" using Cons.prems(4) by simp
    show "\<forall>q \<in> set ps. 0 \<le> fst q \<and> fst q \<notin> time ` set (objects (?t1 o1))" by (rule fresh)
  qed
  then obtain o2 where o2: "add_each (?t1 o1) ps =
           (None, (?t1 o1)\<lparr>tier_end_time := Max (insert (tier_end_time (?t1 o1)) (fst ` set ps)),
                     objects := o2\<rparr>)"
    "points_sorted o2"
    "set o2 = set (objects (?t1 o1)) \<union> (\<lambda>p. mk_point (fst p) (snd p)) ` set ps"
    by blast
  have "add_each t (p # ps) =
      (None, t\<lparr>tier_end_time := Max (insert (tier_end_time t) (fst ` set (p # ps))),
                objects := o2\<rparr>)"
    using o1(1) o2(1) by (simp add: Max_insert_max)
  moreover have "set o2 = set (objects t) \<union> (\<lambda>p. mk_point (fst p) (snd p)) ` set (p # ps)"
    using o2(3) o1(3) by auto
  ultimately show ?case using o2(2) by blast
qed

text \<open>
  C5, as stated, fails when two of the points have the same time: with \<open>overwrite=False\<close>
  the first one inserted stays. Inserting \<open>(1.0, 'a')\<close> then \<open>(1.0, 'b')\<close> leaves the single
  point \<open>(1.0, 'a')\<close>; the other order leaves \<open>(1.0, 'b')\<close>.
\<close>

theorem C5_same_time_order_matters:
  "objects (snd (add_each (new_tier PointTierC ''t'') [(1, ''a''), (1, ''b'')])) =
     [mk_point 1 ''a''] \<and>
   objects (snd (add_each (new_tier PointTierC ''t'') [(1, ''b''), (1, ''a'')])) =
     [mk_point 1 ''b'']"
  by (simp add: new_tier_def add_defs bisect_loop.simps cmp_defs mk_point_def)

text \<open>
  C5, amended. For points with pairwise distinct, non-negative times, inserting them with
  \<open>add\<close> into an empty \<open>PointTier\<close> in any two orders raises nothing and yields the same
  tier (same bounds, same points with the same texts in the same order): the points in
  strictly increasing order of time.
\<close>

theorem C5_add_order_independent:
  assumes "distinct (map fst ps)" and "\<forall>p \<in> set ps. 0 \<le> fst p" and "mset qs = mset ps"
  shows "add_each (new_tier PointTierC n) qs = add_each (new_tier PointTierC n) ps \<and>
         fst (add_each (new_tier PointTierC n) ps) = None \<and>
         sorted_wrt (\<lambda>a b. time a < time b) (objects (snd (add_each (new_tier PointTierC n) ps))) \<and>
         set (objects (snd (add_each (new_tier PointTierC n) ps))) =
           (\<lambda>p. mk_point (fst p) (snd p)) ` set ps"
proof -
  let ?t = "new_tier PointTierC n"
  have inv: "tier_start_time ?t = 0" "0 \<le> tier_end_time ?t" "points_sorted (objects ?t)"
    by (simp_all add: new_tier_def points_sorted_def)
  have sets: "set qs = set ps" using assms(3) by (rule mset_eq_setD)
  have "mset (map fst qs) = mset (map fst ps)" using assms(3) by simp
  then have dq: "distinct (map fst qs)" using assms(1) by (metis mset_eq_imp_distinct_iff)
  have fp: "\<forall>p \<in> set ps. 0 \<le> fst p \<and> fst p \<notin> time ` set (objects ?t)"
    using assms(2) by (simp add: new_tier_def)
  have fq: "\<forall>p \<in> set qs. 0 \<le> fst p \<and> fst p \<notin> time ` set (objects ?t)"
    using assms(2) sets by (simp add: new_tier_def)
  from add_each_distinct [OF inv assms(1) fp]
  obtain o1 where o1: "add_each ?t ps =
      (None, ?t\<lparr>tier_end_time := Max (insert (tier_end_time ?t) (fst ` set ps)), objects := o1\<rparr>)"
    "points_sorted o1" "set o1 = set (objects ?t) \<union> (\<lambda>p. mk_point (fst p) (snd p)) ` set ps"
    by blast
  from add_each_distinct [OF inv dq fq]
  obtain o2 where o2: "add_each ?t qs =
      (None, ?t\<lparr>tier_end_time := Max (insert (tier_end_time ?t) (fst ` set qs)), objects := o2\<rparr>)"
    "points_sorted o2" "set o2 = set (objects ?t) \<union> (\<lambda>p. mk_point (fst p) (snd p)) ` set qs"
    by blast
  have "o1 = o2"
    using o1(2,3) o2(2,3) sets by (intro points_sorted_unique) simp_all
  then have "add_each ?t qs = add_each ?t ps" using o1(1) o2(1) sets by simp
  moreover have "set o1 = (\<lambda>p. mk_point (fst p) (snd p)) ` set ps"
    using o1(3) by (simp add: new_tier_def)
  ultimately show ?thesis using o1(1,2) by (simp add: points_sorted_def)
qed

theorem C5_add_order_independent_witness:
  "add_each (new_tier PointTierC ''t'') [(5, ''c''), (1, ''a''), (3, ''b'')] =
   add_each (new_tier PointTierC ''t'') [(1, ''a''), (3, ''b''), (5, ''c'')] \<and>
   fst (add_each (new_tier PointTierC ''t'') [(1, ''a''), (3, ''b''), (5, ''c'')]) = None"
  using C5_add_order_independent
    [of "[(1, ''a''), (3, ''b''), (5, ''c'')]" "[(5, ''c''), (1, ''a''), (3, ''b'')]" "''t''"]
  by simp


subsection \<open>Adding behind the last element\<close>



lemma split_at_none:
  assumes "\<forall>u \<in> set a. \<not> py_lt x u"
  shows "bisect_right a x = length a"
proof -
  have "split_at a x (bisect_right a x)"
    by (rule bisect_right_split) (use assms in auto)
  then show ?thesis
    using assms unfolding split_at_def by (metis le_neq_implies_less nth_mem order_refl)
qed






text \<open>
  A point whose time is that of the last stored point is recognised: the length stays,
  and the text of the last point is replaced exactly when \<open>overwrite\<close> is set.
\<close>

lemma PointTier_add_existing_last:
  assumes "0 \<le> tier_start_time t" and "tier_start_time t \<le> tier_end_time t"
    and ps: "points_sorted (objects t)" and ne: "objects t \<noteq> []"
    and tm: "time (last (objects t)) = tm" "0 \<le> tm"
  shows "PointTier_add t tm txt ow =
     (None, t\<lparr>tier_start_time := min (tier_start_time t) tm,
              tier_end_time := max (tier_end_time t) tm,
              objects := (if ow
                then (objects t)[length (objects t) - 1 := (last (objects t))\<lparr>text_str := txt\<rparr>]
                else objects t)\<rparr>)"
proof -
  let ?p = "mk_point tm txt" and ?a = "objects t"
  have init: "Point_init tm txt = Inr ?p"
    using tm(2) by (simp add: Point_init_def ranged_init_def mk_point_def)
  have cp: "cls ?p = PointC" and tp: "time ?p = tm" "text_str ?p = txt"
    by (simp_all add: mk_point_def time_def)
  have le: "time u \<le> tm" if "u \<in> set ?a" for u
  proof -
    from that obtain j where j: "j < length ?a" "u = ?a ! j" by (auto simp: in_set_conv_nth)
    show ?thesis
    proof (cases "j = length ?a - 1")
      case True
      then show ?thesis using j tm(1) ne by (simp add: last_conv_nth)
    next
      case False
      then have "j < length ?a - 1" "length ?a - 1 < length ?a" using j by auto
      then have "time (?a ! j) < time (?a ! (length ?a - 1))"
        using ps by (auto simp: points_sorted_def sorted_wrt_iff_nth_less)
      then show ?thesis using j tm(1) ne by (simp add: last_conv_nth)
    qed
  qed
  have "\<forall>u \<in> set ?a. \<not> py_lt ?p u"
  proof
    fix u assume u: "u \<in> set ?a"
    then have "cls u = PointC" using ps by (auto simp: points_sorted_def list_all_iff)
    then show "\<not> py_lt ?p u" using le [OF u] cp tp(1) by (simp add: py_lt_points)
  qed
  then have i: "bisect_right ?a ?p = length ?a" by (rule split_at_none)
  have s1: "Tier_set_start_time t (min (tier_start_time t) tm) =
      (None, t\<lparr>tier_start_time := min (tier_start_time t) tm\<rparr>)"
    using assms(1,2) tm(2) by (simp add: Tier_set_start_time_def)
  have s2: "Tier_set_end_time (t\<lparr>tier_start_time := min (tier_start_time t) tm\<rparr>)
        (max (tier_end_time t) tm) =
      (None, t\<lparr>tier_start_time := min (tier_start_time t) tm,
                tier_end_time := max (tier_end_time t) tm\<rparr>)"
    using assms(1,2) tm(2) by (simp add: Tier_set_end_time_def)
  show ?thesis
    using init cp tp s1 s2 i ne tm(1)
    by (simp add: PointTier_add_def PointTier_add_point_def Let_def)
qed

subsection \<open>Removal\<close>





subsection \<open>Gap filling\<close>

lemma Interval_init_filler:
  "0 \<le> a \<Longrightarrow> a < b \<Longrightarrow> Interval_init a b [] = Inr (filler a b)"
  by (simp add: Interval_init_def ranged_init_def filler_def)

lemma fill_loop_gaps:
  "0 \<le> cur \<Longrightarrow> list_all (\<lambda>x. 0 \<le> start_time x \<and> start_time x \<le> end_time x) xs \<Longrightarrow>
   \<exists>ys. fill_loop cur out xs = Inr (out @ ys) \<and>
        (xs = [] \<longrightarrow> ys = []) \<and>
        (xs \<noteq> [] \<longrightarrow> ys \<noteq> [] \<and> last ys = last xs) \<and>
        gap_filled_spec cur hi xs =
          ys @ (if (if xs = [] then cur else end_time (last xs)) < hi
                then [filler (if xs = [] then cur else end_time (last xs)) hi] else [])"
proof (induction xs arbitrary: cur out)
  case Nil
  then show ?case by simp
next
  case (Cons x xs)
  from Cons.prems have e0: "0 \<le> end_time x"
    and rest: "list_all (\<lambda>x. 0 \<le> start_time x \<and> start_time x \<le> end_time x) xs"
    by auto
  show ?case
  proof (cases "cur < start_time x")
    case True
    from Cons.IH [OF e0 rest, of "out @ [filler cur (start_time x)] @ [x]"]
    obtain ys where ys: "fill_loop (end_time x) (out @ [filler cur (start_time x)] @ [x]) xs
          = Inr ((out @ [filler cur (start_time x)] @ [x]) @ ys)"
      "xs = [] \<longrightarrow> ys = []" "xs \<noteq> [] \<longrightarrow> ys \<noteq> [] \<and> last ys = last xs"
      "gap_filled_spec (end_time x) hi xs =
          ys @ (if (if xs = [] then end_time x else end_time (last xs)) < hi
                then [filler (if xs = [] then end_time x else end_time (last xs)) hi] else [])"
      by blast
    have "fill_loop cur out (x # xs) = Inr (out @ (filler cur (start_time x) # x # ys))"
      using True Cons.prems(1) ys(1) by (simp add: Interval_init_filler)
    moreover have "last (filler cur (start_time x) # x # ys) = last (x # xs)"
      using ys(2,3) by (cases "xs = []") auto
    moreover have "gap_filled_spec cur hi (x # xs) =
        (filler cur (start_time x) # x # ys) @
          (if end_time (last (x # xs)) < hi then [filler (end_time (last (x # xs))) hi] else [])"
      using True ys(4) by (cases "xs = []") auto
    ultimately show ?thesis
      by (intro exI [of _ "filler cur (start_time x) # x # ys"]) simp
  next
    case False
    from Cons.IH [OF e0 rest, of "out @ [x]"]
    obtain ys where ys: "fill_loop (end_time x) (out @ [x]) xs = Inr ((out @ [x]) @ ys)"
      "xs = [] \<longrightarrow> ys = []" "xs \<noteq> [] \<longrightarrow> ys \<noteq> [] \<and> last ys = last xs"
      "gap_filled_spec (end_time x) hi xs =
          ys @ (if (if xs = [] then end_time x else end_time (last xs)) < hi
                then [filler (if xs = [] then end_time x else end_time (last xs)) hi] else [])"
      by blast
    have "fill_loop cur out (x # xs) = Inr (out @ (x # ys))"
      using False ys(1) by simp
    moreover have "last (x # ys) = last (x # xs)"
      using ys(2,3) by (cases "xs = []") auto
    moreover have "gap_filled_spec cur hi (x # xs) =
        (x # ys) @
          (if end_time (last (x # xs)) < hi then [filler (end_time (last (x # xs))) hi] else [])"
      using False ys(4) by (cases "xs = []") auto
    ultimately show ?thesis
      by (intro exI [of _ "x # ys"]) simp
  qed
qed

lemma tiles_gap_filled_spec:
  "sorted_wrt (\<lambda>a b. end_time a \<le> start_time b) xs \<Longrightarrow>
   list_all (\<lambda>x. start_time x \<le> end_time x) xs \<Longrightarrow>
   (xs = [] \<longrightarrow> cur \<le> hi) \<Longrightarrow>
   (xs \<noteq> [] \<longrightarrow> cur \<le> start_time (hd xs) \<and> end_time (last xs) \<le> hi) \<Longrightarrow>
   tiles cur hi (gap_filled_spec cur hi xs)"
proof (induction xs arbitrary: cur)
  case Nil
  then show ?case by (auto simp: filler_def)
next
  case (Cons x xs)
  have "tiles (end_time x) hi (gap_filled_spec (end_time x) hi xs)"
  proof (rule Cons.IH)
    show "sorted_wrt (\<lambda>a b. end_time a \<le> start_time b) xs" using Cons.prems(1) by simp
    show "list_all (\<lambda>x. start_time x \<le> end_time x) xs" using Cons.prems(2) by simp
    show "xs = [] \<longrightarrow> end_time x \<le> hi" using Cons.prems(4) by auto
    show "xs \<noteq> [] \<longrightarrow> end_time x \<le> start_time (hd xs) \<and> end_time (last xs) \<le> hi"
      using Cons.prems(1,4) by (cases xs) auto
  qed
  moreover have "cur \<le> start_time x" "start_time x \<le> end_time x"
    using Cons.prems(2,4) by auto
  ultimately show ?case by (auto simp: filler_def)
qed

text \<open>
  C7, as stated, fails on a tier with no intervals: the trailing filler is added only when
  the output is not empty, so for an empty \<open>IntervalTier\<close> with bounds \<open>[0, 5]\<close> the result
  is the empty list, which tiles nothing, while filling as the specification words it
  gives the one interval \<open>(0, 5)\<close>.
\<close>

theorem C7_empty_tier_not_tiled:
  "fill_in_the_gaps (mk_tier IntervalTierC 0 5 []) = Inr [] \<and>
   \<not> tiles 0 5 [] \<and>
   gap_filled_spec 0 5 [] = [filler 0 5]"
  by (simp add: fill_in_the_gaps_def mk_tier_def)

text \<open>
  C7, amended. For an \<open>IntervalTier\<close> that holds at least one interval, with a non-negative
  \<open>start_time\<close> and intervals whose bounds are non-negative and ordered,
  \<open>_fill_in_the_gaps\<close> raises nothing and returns the stored intervals, in order, with an
  empty-text interval before each one whose start exceeds the cursor (the tier's
  \<open>start_time\<close> at first, then the end of the interval before) and a trailing empty-text
  interval when the end of the last interval is below the tier's \<open>end_time\<close>. If moreover
  each interval ends before every later one starts and all lie within the tier's bounds,
  the result tiles \<open>[start_time, end_time]\<close>. The method returns a list and writes nothing
  to the tier.
\<close>

theorem C7_fill_in_the_gaps:
  assumes "objects self \<noteq> []" and "0 \<le> tier_start_time self"
    and "list_all (\<lambda>x. 0 \<le> start_time x \<and> start_time x \<le> end_time x) (objects self)"
  shows "fill_in_the_gaps self =
           Inr (gap_filled_spec (tier_start_time self) (tier_end_time self) (objects self)) \<and>
         (sorted_wrt (\<lambda>a b. end_time a \<le> start_time b) (objects self) \<and>
          tier_start_time self \<le> start_time (hd (objects self)) \<and>
          end_time (last (objects self)) \<le> tier_end_time self \<longrightarrow>
          tiles (tier_start_time self) (tier_end_time self)
            (gap_filled_spec (tier_start_time self) (tier_end_time self) (objects self)))"
proof -
  let ?xs = "objects self" and ?lo = "tier_start_time self" and ?hi = "tier_end_time self"
  from fill_loop_gaps [OF assms(2,3), of "[]" ?hi] assms(1)
  obtain ys where ys: "fill_loop ?lo [] ?xs = Inr ys" "ys \<noteq> []" "last ys = last ?xs"
    "gap_filled_spec ?lo ?hi ?xs =
       ys @ (if end_time (last ?xs) < ?hi then [filler (end_time (last ?xs)) ?hi] else [])"
    by auto
  have "0 \<le> end_time (last ?xs)"
    using assms(1,3) by (metis (mono_tags, lifting) last_in_set list_all_iff order_trans)
  then have "fill_in_the_gaps self = Inr (gap_filled_spec ?lo ?hi ?xs)"
    using ys by (simp add: fill_in_the_gaps_def Interval_init_filler)
  moreover have "tiles ?lo ?hi (gap_filled_spec ?lo ?hi ?xs)"
    if "sorted_wrt (\<lambda>a b. end_time a \<le> start_time b) ?xs"
      "?lo \<le> start_time (hd ?xs)" "end_time (last ?xs) \<le> ?hi"
  proof (rule tiles_gap_filled_spec)
    show "sorted_wrt (\<lambda>a b. end_time a \<le> start_time b) ?xs" by (rule that(1))
    show "list_all (\<lambda>x. start_time x \<le> end_time x) ?xs"
      using assms(3) by (simp add: list_all_iff)
    show "?xs = [] \<longrightarrow> ?lo \<le> ?hi" using assms(1) by simp
    show "?xs \<noteq> [] \<longrightarrow> ?lo \<le> start_time (hd ?xs) \<and> end_time (last ?xs) \<le> ?hi"
      using that(2,3) by simp
  qed
  ultimately show ?thesis by blast
qed

theorem C7_fill_in_the_gaps_witness:
  "fill_in_the_gaps (mk_tier IntervalTierC 0 10 [mk_interval 1 2 ''a'', mk_interval 3 4 ''b'']) =
     Inr [filler 0 1, mk_interval 1 2 ''a'', filler 2 3, mk_interval 3 4 ''b'', filler 4 10] \<and>
   tiles 0 10 [filler 0 1, mk_interval 1 2 ''a'', filler 2 3, mk_interval 3 4 ''b'', filler 4 10]"
  using C7_fill_in_the_gaps
    [of "mk_tier IntervalTierC 0 10 [mk_interval 1 2 ''a'', mk_interval 3 4 ''b'']"]
  by (simp add: mk_tier_def mk_interval_def)

section \<open>Properties of the document\<close>

lemma first_named_none: "(\<forall>t \<in> set ts. name t \<noteq> n) \<Longrightarrow> first_named ts n = None"
  by (induction ts) auto

lemma index_loop_none: "(\<forall>t \<in> set ts. name t \<noteq> n) \<Longrightarrow> index_loop ts n k = None"
  by (induction ts arbitrary: k) auto

text \<open>
  C10. For a name that no tier of the document has, \<open>tg[name]\<close> returns \<open>None\<close> and raises
  nothing, and \<open>tg.index(name)\<close> returns \<open>None\<close>; \<open>tg[key]\<close> raises \<open>IndexError\<close> exactly when
  the key is an integer outside \<open>-len .. len - 1\<close>.
\<close>

theorem C10_getitem_by_name:
  "((\<forall>t \<in> set (tiers tg). name t \<noteq> n) \<longrightarrow>
      TextGrid_getitem tg (StrKey n) = Inr None \<and> TextGrid_index tg n = None) \<and>
   (TextGrid_getitem tg k = Inl IndexError \<longleftrightarrow>
      (\<exists>i. k = IntKey i \<and> (i < - int (length (tiers tg)) \<or> int (length (tiers tg)) \<le> i)))"
proof -
  have "TextGrid_getitem tg k = Inl IndexError \<longleftrightarrow>
      (\<exists>i. k = IntKey i \<and> (i < - int (length (tiers tg)) \<or> int (length (tiers tg)) \<le> i))"
    by (cases k) (auto simp: TextGrid_getitem_def list_index_def Let_def split: sum.splits)
  then show ?thesis
    by (simp add: TextGrid_getitem_def TextGrid_index_def first_named_none index_loop_none)
qed

theorem C10_getitem_by_name_witness:
  "TextGrid_getitem
     \<lparr>tg_name = ''g'', tg_start_time = 0, tg_end_time = 0,
      tiers = [new_tier PointTierC ''pt_foo'', new_tier IntervalTierC ''it_bar'']\<rparr>
     (StrKey ''it'') = Inr None \<and>
   TextGrid_index
     \<lparr>tg_name = ''g'', tg_start_time = 0, tg_end_time = 0,
      tiers = [new_tier PointTierC ''pt_foo'', new_tier IntervalTierC ''it_bar'']\<rparr>
     ''it'' = None \<and>
   TextGrid_getitem
     \<lparr>tg_name = ''g'', tg_start_time = 0, tg_end_time = 0,
      tiers = [new_tier PointTierC ''pt_foo'', new_tier IntervalTierC ''it_bar'']\<rparr>
     (IntKey 2) = Inl IndexError"
  using C10_getitem_by_name
    [of "\<lparr>tg_name = ''g'', tg_start_time = 0, tg_end_time = 0,
          tiers = [new_tier PointTierC ''pt_foo'', new_tier IntervalTierC ''it_bar'']\<rparr>"
        "''it''" "IntKey 2"]
  by (simp add: new_tier_def)

subsection \<open>Extraction of a selection\<close>







section \<open>Properties of the tier file\<close>

text \<open>
  C4, failing on every tier. \<open>PointTier.write\<close> puts a second \<open>Object class\<close> line and a
  blank line after the header, so the fourth line of the file, where \<open>PointTier.read\<close>
  expects \<open>xmin\<close>, is \<open>Object class = "TextTier"\<close>; its field \<open>"TextTier"\<close> is no number,
  and \<open>read\<close> raises \<open>ValueError\<close> before it has changed the tier. This holds for every
  tier written, every tier read into and every float format, for a \<open>float()\<close> that, like
  Python's, rejects the string \<open>"TextTier"\<close> (quotes included).
\<close>

theorem C4_write_then_read_raises:
  "py_float (dq @ ''TextTier'' @ dq) = None \<Longrightarrow>
   PointTier_read py_float py_int t0 (PointTier_write str_float t ''TextTier'') =
     (Some ValueError, t0)"
  by (simp add: PointTier_read_def PointTier_write_def field_def strip_def strip_with_def
        is_space_def dq_def nl_def)

theorem C4_write_then_read_raises_witness:
  "dec_float (dq @ ''TextTier'' @ dq) = None \<and>
   PointTier_read dec_float dec_int (new_tier PointTierC ''t'')
     (PointTier_write (\<lambda>r. ''0.0'') (new_tier PointTierC ''t'') ''TextTier'') =
     (Some ValueError, new_tier PointTierC ''t'')"
proof -
  have h: "dec_float (dq @ ''TextTier'' @ dq) = None"
    by (simp add: dec_float_def dec_unsigned_def digit_of_def dq_def)
  show ?thesis
    using h C4_write_then_read_raises [of dec_float dec_int "new_tier PointTierC ''t''"
        "\<lambda>r. ''0.0''" "new_tier PointTierC ''t''"]
    by simp
qed

end
